theory Spec2Isabelle
  imports Complex_Main "HOL-Library.AList"
begin

section \<open>The Kelly position-sizing engine of \<^verbatim>\<open>utils/kelly_optimizer.py\<close>\<close>

text \<open>
  Python floats are modelled as \<^typ>\<open>real\<close>: the development is about the arithmetic
  the code writes down, not about rounding. Python's \<^verbatim>\<open>int\<close> is \<^typ>\<open>int\<close>, a
  \<^verbatim>\<open>str\<close> is a \<^typ>\<open>string\<close>, a \<^verbatim>\<open>dict\<close> whose order matters is an association
  list, and every exception the code can raise is a value of \<open>error\<close>.
\<close>

subsection \<open>Data model\<close>

datatype KellyMode = FULL | FRACTIONAL_50 | FRACTIONAL_25 | ADAPTIVE

fun KellyMode_value :: "KellyMode \<Rightarrow> string" where
  "KellyMode_value FULL = ''full''"
| "KellyMode_value FRACTIONAL_50 = ''half''"
| "KellyMode_value FRACTIONAL_25 = ''quarter''"
| "KellyMode_value ADAPTIVE = ''adaptive''"

record MarketOpportunity =
  probability_estimate :: real
  market_price :: real
  confidence_level :: real
  liquidity :: real
  bid_ask_spread :: real
  time_to_resolution :: int
  market_id :: string

text \<open>
  The reasoning string is \<^verbatim>\<open>" | ".join(reasoning_parts)\<close>; the model keeps the list of
  parts, and a part that formats a number keeps the number instead of its digits.
\<close>

datatype reasoning_part =
    Literal string
  | Base_Kelly real
  | Confidence_adjustment real
  | Risk_adjustments real
  | Kelly_mode string
  | Final_position real

record KellyResult =
  kelly_fraction :: real
  adjusted_fraction :: real
  expected_value :: real
  confidence_adjustment :: real
  risk_adjustment :: real
  final_position_size :: real
  recommendation :: string
  reasoning :: "reasoning_part list"

text \<open>The constructor arguments of \<^verbatim>\<open>AdvancedKellyOptimizer.__init__\<close>.\<close>

record AdvancedKellyOptimizer =
  kelly_mode :: KellyMode
  max_position_size :: real
  min_confidence_threshold :: real
  max_correlation_exposure :: real
  drawdown_protection :: bool
  stress_test :: bool

text \<open>The attributes \<^verbatim>\<open>__init__\<close> sets to constants.\<close>

definition volatility_penalty :: real where
  "volatility_penalty = 0.8"

definition liquidity_penalty :: real where
  "liquidity_penalty = 0.9"

definition time_decay_factor :: real where
  "time_decay_factor = 0.95"

definition default_optimizer :: AdvancedKellyOptimizer where
  "default_optimizer =
     \<lparr>kelly_mode = FRACTIONAL_50, max_position_size = 0.15,
      min_confidence_threshold = 0.6, max_correlation_exposure = 0.3,
      drawdown_protection = True, stress_test = True\<rparr>"

datatype error = ZeroDivisionError | OverflowError

subsection \<open>Validation, base Kelly and expected value\<close>

definition validate_opportunity :: "MarketOpportunity \<Rightarrow> bool" where
  "validate_opportunity opportunity =
     (if \<not> (0 < probability_estimate opportunity \<and> probability_estimate opportunity < 1)
        then False
      else if \<not> (0 < market_price opportunity \<and> market_price opportunity < 1)
        then False
      else if \<not> (0 \<le> confidence_level opportunity \<and> confidence_level opportunity \<le> 1)
        then False
      else if liquidity opportunity < 0
        then False
      else True)"

definition calculate_base_kelly :: "MarketOpportunity \<Rightarrow> real" where
  "calculate_base_kelly opportunity =
     (let p = probability_estimate opportunity;
          price = market_price opportunity
      in if price \<le> 0 \<or> price \<ge> 1 then 0
         else let odds = (1 / price) - 1;
                  q = 1 - p
              in if odds \<le> 0 then 0
                 else let kelly = (p * odds - q) / odds
                      in max kelly 0)"

definition calculate_expected_value :: "MarketOpportunity \<Rightarrow> real" where
  "calculate_expected_value opportunity =
     (let p = probability_estimate opportunity;
          price = market_price opportunity
      in if price \<le> 0 \<or> price \<ge> 1 then 0
         else p / price - 1)"

subsection \<open>Confidence adjustment\<close>

definition build_confidence_curve :: "(real \<times> real) list" where
  "build_confidence_curve =
     [(0.5, 0.0), (0.6, 0.2), (0.7, 0.5), (0.8, 0.8), (0.9, 0.95), (1.0, 1.0)]"

text \<open>The \<^verbatim>\<open>for i in range(len(confidence_levels) - 1)\<close> loop over neighbouring levels.\<close>

fun interpolate :: "(real \<times> real) list \<Rightarrow> real list \<Rightarrow> real \<Rightarrow> real" where
  "interpolate curve (x1 # x2 # rest) confidence =
     (if x1 \<le> confidence \<and> confidence \<le> x2
      then (let y1 = the (map_of curve x1); y2 = the (map_of curve x2)
            in y1 + (y2 - y1) * (confidence - x1) / (x2 - x1))
      else interpolate curve (x2 # rest) confidence)"
| "interpolate curve _ confidence = 0"

definition get_confidence_multiplier :: "real \<Rightarrow> real" where
  "get_confidence_multiplier confidence =
     (let curve = build_confidence_curve;
          confidence_levels = sort (map fst curve)
      in if confidence \<le> hd confidence_levels
           then the (map_of curve (hd confidence_levels))
         else if confidence \<ge> last confidence_levels
           then the (map_of curve (last confidence_levels))
         else interpolate curve confidence_levels confidence)"

definition apply_confidence_adjustment ::
  "AdvancedKellyOptimizer \<Rightarrow> real \<Rightarrow> real \<Rightarrow> real \<times> real" where
  "apply_confidence_adjustment self kelly confidence =
     (if confidence < min_confidence_threshold self then (0, 1)
      else let confidence_multiplier = get_confidence_multiplier confidence;
               adjusted_kelly = kelly * confidence_multiplier;
               penalty = 1 - confidence_multiplier
           in (adjusted_kelly, penalty))"

subsection \<open>Risk adjustments and mode scaling\<close>

text \<open>
  The three \<^verbatim>\<open>if\<close> blocks update \<^verbatim>\<open>adjusted_kelly\<close> and \<^verbatim>\<open>total_penalty\<close> in turn;
  each is a step on that pair. \<^verbatim>\<open>time_decay_factor ** weeks_excess\<close> is a float power
  with a positive base, \<open>powr\<close> on the reals.
\<close>

definition liquidity_step :: "MarketOpportunity \<Rightarrow> real \<times> real \<Rightarrow> real \<times> real" where
  "liquidity_step opportunity s =
     (case s of (adjusted_kelly, total_penalty) \<Rightarrow>
        if liquidity opportunity < 1000
        then (let liquidity_mult = liquidity_penalty
              in (adjusted_kelly * liquidity_mult, total_penalty + (1 - liquidity_mult)))
        else (adjusted_kelly, total_penalty))"

definition spread_step :: "MarketOpportunity \<Rightarrow> real \<times> real \<Rightarrow> real \<times> real" where
  "spread_step opportunity s =
     (case s of (adjusted_kelly, total_penalty) \<Rightarrow>
        if bid_ask_spread opportunity > 0.05
        then (let spread_mult = max (1 - (bid_ask_spread opportunity * 2)) 0.5
              in (adjusted_kelly * spread_mult, total_penalty + (1 - spread_mult)))
        else (adjusted_kelly, total_penalty))"

definition time_step :: "MarketOpportunity \<Rightarrow> real \<times> real \<Rightarrow> real \<times> real" where
  "time_step opportunity s =
     (case s of (adjusted_kelly, total_penalty) \<Rightarrow>
        if time_to_resolution opportunity > 2160
        then (let weeks_excess = real_of_int (time_to_resolution opportunity - 2160) / 168;
                  time_mult = time_decay_factor powr weeks_excess
              in (adjusted_kelly * time_mult, total_penalty + (1 - time_mult)))
        else (adjusted_kelly, total_penalty))"

definition apply_risk_adjustments :: "real \<Rightarrow> MarketOpportunity \<Rightarrow> real \<times> real" where
  "apply_risk_adjustments kelly opportunity =
     time_step opportunity (spread_step opportunity (liquidity_step opportunity (kelly, 0)))"

definition apply_kelly_mode_scaling :: "AdvancedKellyOptimizer \<Rightarrow> real \<Rightarrow> real" where
  "apply_kelly_mode_scaling self kelly =
     (case kelly_mode self of
        FULL \<Rightarrow> kelly
      | FRACTIONAL_50 \<Rightarrow> kelly * 0.5
      | FRACTIONAL_25 \<Rightarrow> kelly * 0.25
      | ADAPTIVE \<Rightarrow>
          if kelly > 0.2 then kelly * 0.25
          else if kelly > 0.1 then kelly * 0.5
          else kelly * 0.75)"

subsection \<open>Portfolio constraints\<close>

text \<open>
  An existing position is a \<^verbatim>\<open>dict\<close>, read only by \<^verbatim>\<open>pos.get('position_size', 0)\<close>.
  \<^verbatim>\<open>if existing_positions:\<close> is false for \<^verbatim>\<open>None\<close> and for the empty list.
\<close>

type_synonym position = "string \<rightharpoonup> real"

definition position_size_of :: "position \<Rightarrow> real" where
  "position_size_of pos = (case pos ''position_size'' of None \<Rightarrow> 0 | Some v \<Rightarrow> v)"

definition apply_portfolio_constraints ::
  "AdvancedKellyOptimizer \<Rightarrow> real \<Rightarrow> MarketOpportunity \<Rightarrow> position list option \<Rightarrow> real \<Rightarrow> real"
  where
  "apply_portfolio_constraints self kelly0 opportunity existing_positions bankroll =
     (let kelly = min kelly0 (max_position_size self)
      in case existing_positions of
           None \<Rightarrow> kelly
         | Some [] \<Rightarrow> kelly
         | Some (pos # rest) \<Rightarrow>
             (let total_exposure = sum_list (map position_size_of (pos # rest))
              in if total_exposure > max_correlation_exposure self
                 then (let reduction_factor =
                             max 0.5 (1 - (total_exposure - max_correlation_exposure self))
                       in kelly * reduction_factor)
                 else kelly))"

subsection \<open>Stress test\<close>

definition stress_scenarios :: "(real \<times> real) list" where
  "stress_scenarios = [(- 0.2, 2.0), (- 0.15, 1.5), (- 0.1, 1.2)]"

definition stressed_opp :: "MarketOpportunity \<Rightarrow> real \<times> real \<Rightarrow> MarketOpportunity" where
  "stressed_opp opportunity scenario =
     (case scenario of (prob_error, spread_increase) \<Rightarrow>
        (let stressed_prob = max 0.01 (probability_estimate opportunity + prob_error)
         in \<lparr>probability_estimate = stressed_prob,
             market_price = market_price opportunity,
             confidence_level = confidence_level opportunity * 0.8,
             liquidity = liquidity opportunity * 0.7,
             bid_ask_spread = bid_ask_spread opportunity * spread_increase,
             time_to_resolution = time_to_resolution opportunity,
             market_id = market_id opportunity\<rparr>))"

fun stress_loop :: "(real \<times> real) list \<Rightarrow> MarketOpportunity \<Rightarrow> real \<Rightarrow> real" where
  "stress_loop [] opportunity worst_case_kelly = worst_case_kelly"
| "stress_loop (scenario # rest) opportunity worst_case_kelly =
     (let stressed_kelly = calculate_base_kelly (stressed_opp opportunity scenario) * 0.5
      in stress_loop rest opportunity (min worst_case_kelly stressed_kelly))"

definition stress_test_position :: "real \<Rightarrow> MarketOpportunity \<Rightarrow> real" where
  "stress_test_position kelly opportunity =
     stress_loop stress_scenarios opportunity kelly * 0.8"

subsection \<open>Recommendation and reasoning\<close>

definition generate_recommendation :: "real \<Rightarrow> real \<Rightarrow> MarketOpportunity \<Rightarrow> string" where
  "generate_recommendation kelly ev opportunity =
     (if kelly < 0.01 \<or> ev \<le> 0 then ''HOLD''
      else if kelly \<ge> 0.05
        then (if probability_estimate opportunity > market_price opportunity
              then ''BUY_YES'' else ''BUY_NO'')
      else ''SMALL_BUY'')"

definition generate_reasoning ::
  "AdvancedKellyOptimizer \<Rightarrow> real \<Rightarrow> real \<Rightarrow> real \<Rightarrow> real \<Rightarrow> MarketOpportunity
     \<Rightarrow> reasoning_part list" where
  "generate_reasoning self base_kelly confidence_penalty risk_penalty final_kelly opportunity =
     [Base_Kelly base_kelly]
     @ (if confidence_penalty > 0 then [Confidence_adjustment confidence_penalty] else [])
     @ (if risk_penalty > 0 then [Risk_adjustments risk_penalty] else [])
     @ [Kelly_mode (KellyMode_value (kelly_mode self))]
     @ [Final_position final_kelly]
     @ (if final_kelly < 0.01 then [Literal ''Position too small - recommend HOLD''] else [])"

subsection \<open>The pipeline\<close>

definition invalid_result :: KellyResult where
  "invalid_result =
     \<lparr>kelly_fraction = 0, adjusted_fraction = 0, expected_value = 0,
      confidence_adjustment = 0, risk_adjustment = 0, final_position_size = 0,
      recommendation = ''HOLD'',
      reasoning = [Literal ''Invalid opportunity parameters'']\<rparr>"

definition calculate_optimal_position ::
  "AdvancedKellyOptimizer \<Rightarrow> MarketOpportunity \<Rightarrow> real \<Rightarrow> position list option \<Rightarrow> KellyResult"
  where
  "calculate_optimal_position self opportunity bankroll existing_positions =
     (if \<not> validate_opportunity opportunity then invalid_result
      else
        let base_kelly = calculate_base_kelly opportunity;
            ev = calculate_expected_value opportunity;
            (confidence_adjusted_kelly, confidence_penalty) =
               apply_confidence_adjustment self base_kelly (confidence_level opportunity);
            (risk_adjusted_kelly, risk_penalty) =
               apply_risk_adjustments confidence_adjusted_kelly opportunity;
            mode_adjusted_kelly = apply_kelly_mode_scaling self risk_adjusted_kelly;
            final_kelly0 =
               apply_portfolio_constraints self mode_adjusted_kelly opportunity
                 existing_positions bankroll;
            final_kelly =
               (if stress_test self then stress_test_position final_kelly0 opportunity
                else final_kelly0)
        in \<lparr>kelly_fraction = base_kelly,
            adjusted_fraction = final_kelly,
            expected_value = ev,
            confidence_adjustment = confidence_penalty,
            risk_adjustment = risk_penalty,
            final_position_size = final_kelly,
            recommendation = generate_recommendation final_kelly ev opportunity,
            reasoning =
              generate_reasoning self base_kelly confidence_penalty risk_penalty
                final_kelly opportunity\<rparr>)"

text \<open>
  The candidate fraction the stress test receives: the confidence, risk, mode and
  portfolio stages applied to the base Kelly fraction.
\<close>

definition pre_stress ::
  "AdvancedKellyOptimizer \<Rightarrow> MarketOpportunity \<Rightarrow> real \<Rightarrow> position list option \<Rightarrow> real" where
  "pre_stress self opp bankroll existing_positions =
     apply_portfolio_constraints self
       (apply_kelly_mode_scaling self
          (fst (apply_risk_adjustments
                  (fst (apply_confidence_adjustment self (calculate_base_kelly opp)
                          (confidence_level opp))) opp)))
       opp existing_positions bankroll"

subsection \<open>Multi-market aggregation\<close>

text \<open>
  \<^verbatim>\<open>results\<close> is a \<^verbatim>\<open>dict\<close> from market id to result, filled in list order:
  an association list under \<^const>\<open>AList.update\<close>, which overwrites the entry of a key
  already present. \<^verbatim>\<open>total_kelly_budget / total_kelly\<close> raises for a zero divisor.
\<close>

definition multi_market_result :: "MarketOpportunity \<Rightarrow> real \<Rightarrow> KellyResult" where
  "multi_market_result opp adjusted_kelly =
     \<lparr>kelly_fraction = adjusted_kelly,
      adjusted_fraction = adjusted_kelly,
      expected_value = calculate_expected_value opp,
      confidence_adjustment = 0,
      risk_adjustment = 0,
      final_position_size = adjusted_kelly,
      recommendation =
        generate_recommendation adjusted_kelly (calculate_expected_value opp) opp,
      reasoning = [Literal ''Multi-market Kelly with correlation adjustment'']\<rparr>"

text \<open>The body of the \<^verbatim>\<open>for i, opp in enumerate(opportunities)\<close> loop.\<close>

definition store_result ::
  "real list \<Rightarrow> (string \<times> KellyResult) list \<Rightarrow> nat \<times> MarketOpportunity
     \<Rightarrow> (string \<times> KellyResult) list" where
  "store_result individual_kellys results e =
     (case e of (i, opp) \<Rightarrow>
        (let adjusted_kelly = individual_kellys ! i
         in AList.update (market_id opp) (multi_market_result opp adjusted_kelly) results))"

definition create_results ::
  "MarketOpportunity list \<Rightarrow> real list \<Rightarrow> (string \<times> KellyResult) list" where
  "create_results opportunities individual_kellys =
     foldl (store_result individual_kellys) [] (enumerate 0 opportunities)"

definition individual_kellys ::
  "AdvancedKellyOptimizer \<Rightarrow> MarketOpportunity list \<Rightarrow> real \<Rightarrow> real list" where
  "individual_kellys self opportunities bankroll =
     map (\<lambda>opp. adjusted_fraction (calculate_optimal_position self opp bankroll None))
       opportunities"

text \<open>The block that scales the fractions down when their sum exceeds the budget.\<close>

definition scale_to_budget :: "AdvancedKellyOptimizer \<Rightarrow> real list \<Rightarrow> error + real list" where
  "scale_to_budget self kellys =
     (let total_kelly_budget = max_correlation_exposure self;
          total_kelly = sum_list kellys
      in if total_kelly > total_kelly_budget
         then (if total_kelly = 0 then Inl ZeroDivisionError
               else (let scale_factor = total_kelly_budget / total_kelly
                     in Inr (map (\<lambda>k. k * scale_factor) kellys)))
         else Inr kellys)"

definition calculate_multi_market_kelly ::
  "AdvancedKellyOptimizer \<Rightarrow> MarketOpportunity list \<Rightarrow> real list list option \<Rightarrow> real
     \<Rightarrow> error + (string \<times> KellyResult) list" where
  "calculate_multi_market_kelly self opportunities correlations bankroll =
     (case correlations of
        None \<Rightarrow>
          Inr (foldl (\<lambda>results opp.
                        AList.update (market_id opp)
                          (calculate_optimal_position self opp bankroll None) results)
                 [] opportunities)
      | Some _ \<Rightarrow>
          (case scale_to_budget self (individual_kellys self opportunities bankroll) of
             Inl e \<Rightarrow> Inl e
           | Inr kellys \<Rightarrow> Inr (create_results opportunities kellys)))"

subsection \<open>Concrete inputs\<close>

text \<open>The opportunity of \<^verbatim>\<open>demo_kelly_optimizer\<close>, and variations of it.\<close>

definition demo_opp :: MarketOpportunity where
  "demo_opp =
     \<lparr>probability_estimate = 0.72, market_price = 0.35, confidence_level = 0.85,
      liquidity = 5000, bid_ask_spread = 0.02, time_to_resolution = 720,
      market_id = ''btc_100k_2024''\<rparr>"

definition exposed_positions :: "position list" where
  "exposed_positions =
     [[''position_size'' \<mapsto> 0.2], [''position_size'' \<mapsto> 0.15]]"

definition out_of_range_opp :: MarketOpportunity where
  "out_of_range_opp = demo_opp\<lparr>probability_estimate := 1.5\<rparr>"

definition negative_spread_opp :: MarketOpportunity where
  "negative_spread_opp = demo_opp\<lparr>bid_ask_spread := - 0.1\<rparr>"

definition negative_horizon_opp :: MarketOpportunity where
  "negative_horizon_opp = demo_opp\<lparr>time_to_resolution := - 24\<rparr>"

definition low_confidence_opp :: MarketOpportunity where
  "low_confidence_opp = demo_opp\<lparr>confidence_level := 0.55\<rparr>"

definition near_certain_opp :: MarketOpportunity where
  "near_certain_opp = demo_opp\<lparr>probability_estimate := 0.995, market_price := 0.99\<rparr>"

definition overpriced_opp :: MarketOpportunity where
  "overpriced_opp = demo_opp\<lparr>market_price := 0.99\<rparr>"

definition risky_opp :: MarketOpportunity where
  "risky_opp =
     demo_opp\<lparr>liquidity := 500, bid_ask_spread := 0.1, time_to_resolution := 2328\<rparr>"

definition negative_cap_optimizer :: AdvancedKellyOptimizer where
  "negative_cap_optimizer = default_optimizer\<lparr>max_position_size := - 0.1\<rparr>"

definition negative_budget_optimizer :: AdvancedKellyOptimizer where
  "negative_budget_optimizer = default_optimizer\<lparr>max_correlation_exposure := - 0.1\<rparr>"

definition three_markets :: "MarketOpportunity list" where
  "three_markets =
     [demo_opp\<lparr>market_id := ''a''\<rparr>, demo_opp\<lparr>market_id := ''b''\<rparr>,
      demo_opp\<lparr>market_id := ''c''\<rparr>]"

definition same_id_markets :: "MarketOpportunity list" where
  "same_id_markets = [demo_opp, demo_opp, demo_opp]"

definition no_correlation :: "real list list" where
  "no_correlation = [[1, 0, 0], [0, 1, 0], [0, 0, 1]]"

section \<open>The engine over IEEE doubles\<close>

text \<open>
  The definitions above read Python's \<^verbatim>\<open>float\<close> as a real number. Where a property
  depends on rounding, overflow or NaN, the code is read over IEEE 754 binary64 instead:
  a double is a real that rounding leaves unchanged, or an infinity, or NaN. The two
  zeros are identified: they compare equal and Python raises on a division by either.
  Arithmetic rounds the exact result to nearest, ties to even, and overflows to an
  infinity; \<^verbatim>\<open>/\<close> raises \<^verbatim>\<open>ZeroDivisionError\<close> for a zero divisor; a comparison with NaN
  is false; \<^verbatim>\<open>max(a, b)\<close> is \<^verbatim>\<open>b if b > a else a\<close> and \<^verbatim>\<open>min(a, b)\<close> is
  \<^verbatim>\<open>b if b < a else a\<close>.
\<close>

definition round_half_even :: "real \<Rightarrow> int" where
  "round_half_even r =
     (let f = \<lfloor>r\<rfloor>
      in if r - of_int f < 1 / 2 then f
         else if 1 / 2 < r - of_int f then f + 1
         else if even f then f else f + 1)"

definition binade :: "real \<Rightarrow> int" where
  "binade x = \<lfloor>log 2 \<bar>x\<bar>\<rfloor>"

definition ulp_exponent :: "real \<Rightarrow> int" where
  "ulp_exponent x = max (binade x - 52) (- 1074)"

definition round_fin :: "real \<Rightarrow> real" where
  "round_fin x =
     (if x = 0 then 0
      else of_int (round_half_even (x / 2 powi ulp_exponent x)) * 2 powi ulp_exponent x)"

datatype double = Fin real | PInf | NInf | NaN

definition largest_double :: real where
  "largest_double = (2 ^ 53 - 1) * 2 ^ 971"

definition rnd :: "real \<Rightarrow> double" where
  "rnd x =
     (let y = round_fin x
      in if largest_double < y then PInf
         else if y < - largest_double then NInf
         else Fin y)"

fun is_nan :: "double \<Rightarrow> bool" where
  "is_nan NaN = True"
| "is_nan _ = False"

fun flt :: "double \<Rightarrow> double \<Rightarrow> bool" where
  "flt (Fin x) (Fin y) = (x < y)"
| "flt (Fin x) PInf = True"
| "flt NInf (Fin y) = True"
| "flt NInf PInf = True"
| "flt _ _ = False"

fun fle :: "double \<Rightarrow> double \<Rightarrow> bool" where
  "fle (Fin x) (Fin y) = (x \<le> y)"
| "fle NaN _ = False"
| "fle _ NaN = False"
| "fle NInf _ = True"
| "fle _ PInf = True"
| "fle _ _ = False"







definition pymax :: "double \<Rightarrow> double \<Rightarrow> double" where
  "pymax a b = (if flt a b then b else a)"

definition pymin :: "double \<Rightarrow> double \<Rightarrow> double" where
  "pymin a b = (if flt b a then b else a)"






section \<open>Properties\<close>

subsection \<open>Base Kelly\<close>

lemma calculate_base_kelly_nonneg: "0 \<le> calculate_base_kelly opp"
  by (simp add: calculate_base_kelly_def Let_def)

lemma calculate_base_kelly_demo: "calculate_base_kelly demo_opp = 37 / 65"
  by (simp add: calculate_base_kelly_def demo_opp_def Let_def)

text \<open>Inside the price range the formula is the edge over the complement of the price.\<close>

lemma calculate_base_kelly_closed_form:
  assumes "0 < market_price opp" and "market_price opp < 1"
  shows "calculate_base_kelly opp
           = max ((probability_estimate opp - market_price opp) / (1 - market_price opp)) 0"
proof -
  let ?p = "probability_estimate opp" and ?c = "market_price opp"
  let ?odds = "1 / ?c - 1"
  have odds: "?odds = (1 - ?c) / ?c"
    using assms(1) by (simp add: field_simps)
  have pos: "0 < ?odds"
    unfolding odds using assms by simp
  have "(?p * ?odds - (1 - ?p)) / ?odds = (?p - ?c) / (1 - ?c)"
    unfolding odds using assms by (simp add: field_simps)
  moreover have "calculate_base_kelly opp = max ((?p * ?odds - (1 - ?p)) / ?odds) 0"
    using assms pos by (simp add: calculate_base_kelly_def Let_def not_le)
  ultimately show ?thesis by (simp only:)
qed

subsection \<open>Recommendation\<close>

text \<open>
  C5. The recommendation is HOLD if the final fraction is below 0.01 or the expected
  value is not positive; otherwise BUY_YES if the fraction is at least 0.05 and the
  estimate exceeds the price; otherwise BUY_NO if the fraction is at least 0.05;
  otherwise SMALL_BUY.
\<close>

theorem generate_recommendation_cases:
  "generate_recommendation f ev opp =
     (if f < 0.01 \<or> ev \<le> 0 then ''HOLD''
      else if 0.05 \<le> f \<and> market_price opp < probability_estimate opp then ''BUY_YES''
      else if 0.05 \<le> f then ''BUY_NO''
      else ''SMALL_BUY'')"
  by (simp add: generate_recommendation_def)

theorem generate_recommendation_cases_witness:
  "generate_recommendation 0.005 1 demo_opp = ''HOLD''
   \<and> generate_recommendation 0.1 0 demo_opp = ''HOLD''
   \<and> generate_recommendation 0.1 1 demo_opp = ''BUY_YES''
   \<and> generate_recommendation 0.1 1 near_certain_opp = ''BUY_YES''
   \<and> generate_recommendation 0.1 1 overpriced_opp = ''BUY_NO''
   \<and> generate_recommendation 0.03 1 demo_opp = ''SMALL_BUY''"
  using generate_recommendation_cases [of "0.005" 1 demo_opp]
    generate_recommendation_cases [of "0.1" 0 demo_opp]
    generate_recommendation_cases [of "0.1" 1 demo_opp]
    generate_recommendation_cases [of "0.1" 1 near_certain_opp]
    generate_recommendation_cases [of "0.1" 1 overpriced_opp]
    generate_recommendation_cases [of "0.03" 1 demo_opp]
  by (simp add: demo_opp_def near_certain_opp_def overpriced_opp_def)

subsection \<open>Stress test\<close>

lemma stress_loop_le: "stress_loop sc opp w \<le> w"
proof (induction sc arbitrary: w)
  case Nil
  show ?case by simp
next
  case (Cons s sc)
  have "stress_loop (s # sc) opp w
          = stress_loop sc opp (min w (calculate_base_kelly (stressed_opp opp s) * 0.5))"
    by (simp add: Let_def)
  also have "\<dots> \<le> min w (calculate_base_kelly (stressed_opp opp s) * 0.5)"
    by (rule Cons.IH)
  also have "\<dots> \<le> w" by simp
  finally show ?case .
qed

lemma stress_loop_nonneg: "0 \<le> w \<Longrightarrow> 0 \<le> stress_loop sc opp w"
  by (induction sc arbitrary: w) (auto simp: Let_def calculate_base_kelly_nonneg)

lemma stress_loop_demo: "stress_loop stress_scenarios demo_opp 0.15 = 17 / 130"
  by (simp add: stress_scenarios_def stressed_opp_def calculate_base_kelly_def demo_opp_def
      Let_def)

text \<open>
  C7. For a non-negative candidate fraction the stress test returns at most that
  candidate, whatever the opportunity.
\<close>

theorem stress_test_position_le:
  assumes "0 \<le> kelly"
  shows "stress_test_position kelly opp \<le> kelly"
proof -
  have "0 \<le> stress_loop stress_scenarios opp kelly"
    using assms by (rule stress_loop_nonneg)
  moreover have "stress_loop stress_scenarios opp kelly \<le> kelly"
    by (rule stress_loop_le)
  ultimately show ?thesis
    by (simp add: stress_test_position_def)
qed

theorem stress_test_position_le_witness:
  "validate_opportunity demo_opp \<and> (0::real) \<le> 0.15
   \<and> stress_test_position 0.15 demo_opp = 34 / 325
   \<and> stress_test_position 0.15 demo_opp \<le> 0.15"
proof -
  have valid: "validate_opportunity demo_opp"
    by (simp add: validate_opportunity_def demo_opp_def)
  have stressed: "stress_test_position 0.15 demo_opp = 34 / 325"
    unfolding stress_test_position_def stress_loop_demo by simp
  from stress_test_position_le [of "0.15" demo_opp] valid stressed
  show ?thesis by simp
qed

subsection \<open>Bankroll\<close>

text \<open>
  C9. The result of \<open>calculate_optimal_position\<close> does not depend on the bankroll.
\<close>

theorem calculate_optimal_position_bankroll:
  "calculate_optimal_position self opp b1 existing_positions
     = calculate_optimal_position self opp b2 existing_positions"
  by (simp add: calculate_optimal_position_def apply_portfolio_constraints_def)

theorem calculate_optimal_position_bankroll_witness:
  "calculate_optimal_position default_optimizer demo_opp 1000 None
     = calculate_optimal_position default_optimizer demo_opp 1 None"
  by (rule calculate_optimal_position_bankroll)


subsection \<open>Confidence curve\<close>

lemma confidence_levels: "sort (map fst build_confidence_curve) = [0.5, 0.6, 0.7, 0.8, 0.9, 1]"
  by (simp add: build_confidence_curve_def)

lemma get_confidence_multiplier_unfold:
  "get_confidence_multiplier c =
     (if c \<le> 0.5 then 0
      else if 1 \<le> c then 1
      else if c \<le> 0.6 then 0 + (0.2 - 0) * (c - 0.5) / (0.6 - 0.5)
      else if c \<le> 0.7 then 0.2 + (0.5 - 0.2) * (c - 0.6) / (0.7 - 0.6)
      else if c \<le> 0.8 then 0.5 + (0.8 - 0.5) * (c - 0.7) / (0.8 - 0.7)
      else if c \<le> 0.9 then 0.8 + (0.95 - 0.8) * (c - 0.8) / (0.9 - 0.8)
      else 0.95 + (1 - 0.95) * (c - 0.9) / (1 - 0.9))"
  unfolding get_confidence_multiplier_def Let_def confidence_levels
  by (simp add: build_confidence_curve_def)

lemma get_confidence_multiplier_nonneg: "0 \<le> get_confidence_multiplier c"
  unfolding get_confidence_multiplier_unfold by (simp add: field_simps)

lemma get_confidence_multiplier_demo: "get_confidence_multiplier 0.85 = 7 / 8"
  unfolding get_confidence_multiplier_unfold by simp


subsection \<open>The stages preserve zero and sign\<close>

lemma apply_confidence_adjustment_nonneg:
  "0 \<le> k \<Longrightarrow> 0 \<le> fst (apply_confidence_adjustment self k c)"
  by (simp add: apply_confidence_adjustment_def Let_def get_confidence_multiplier_nonneg)

lemma apply_confidence_adjustment_low:
  "c < min_confidence_threshold self \<Longrightarrow> apply_confidence_adjustment self k c = (0, 1)"
  by (simp add: apply_confidence_adjustment_def)

lemma liquidity_step_nonneg: "0 \<le> fst s \<Longrightarrow> 0 \<le> fst (liquidity_step opp s)"
  by (cases s) (simp add: liquidity_step_def liquidity_penalty_def Let_def)

lemma spread_step_nonneg: "0 \<le> fst s \<Longrightarrow> 0 \<le> fst (spread_step opp s)"
  by (cases s) (simp add: spread_step_def Let_def)

lemma time_step_nonneg: "0 \<le> fst s \<Longrightarrow> 0 \<le> fst (time_step opp s)"
  by (cases s) (simp add: time_step_def Let_def)

lemma apply_risk_adjustments_nonneg: "0 \<le> k \<Longrightarrow> 0 \<le> fst (apply_risk_adjustments k opp)"
  unfolding apply_risk_adjustments_def
  by (intro time_step_nonneg spread_step_nonneg liquidity_step_nonneg) simp

lemma apply_risk_adjustments_zero: "fst (apply_risk_adjustments 0 opp) = 0"
  by (simp add: apply_risk_adjustments_def time_step_def spread_step_def liquidity_step_def
      Let_def)

text \<open>
  All three penalties at once: low liquidity, a spread of 0.1 and one week beyond the
  2160 hours.
\<close>

lemma apply_risk_adjustments_risky:
  "apply_risk_adjustments 0.4 risky_opp = (171 / 625, 7 / 20)"
  by (simp add: apply_risk_adjustments_def liquidity_step_def spread_step_def time_step_def
      liquidity_penalty_def time_decay_factor_def risky_opp_def demo_opp_def Let_def)

lemma apply_kelly_mode_scaling_nonneg: "0 \<le> k \<Longrightarrow> 0 \<le> apply_kelly_mode_scaling self k"
  by (simp add: apply_kelly_mode_scaling_def split: KellyMode.split)

lemma apply_kelly_mode_scaling_zero: "apply_kelly_mode_scaling self 0 = 0"
  by (simp add: apply_kelly_mode_scaling_def split: KellyMode.split)

subsection \<open>Portfolio constraints\<close>

lemma reduction_factor_bounds:
  fixes total budget :: real
  assumes "budget < total"
  shows "0.5 \<le> max 0.5 (1 - (total - budget))" and "max 0.5 (1 - (total - budget)) \<le> 1"
  using assms by simp_all

lemma scaled_le_cap:
  fixes k m r :: real
  assumes "0 \<le> m" and "k \<le> m" and "0 \<le> r" and "r \<le> 1"
  shows "k * r \<le> m"
proof (cases "0 \<le> k")
  case True
  then have "k * r \<le> k * 1" using assms(4) by (intro mult_left_mono) simp_all
  then show ?thesis using assms(2) by simp
next
  case False
  then have "k * r \<le> 0" using assms(3) by (simp add: mult_nonpos_nonneg)
  then show ?thesis using assms(1) by simp
qed

lemma apply_portfolio_constraints_le:
  assumes "0 \<le> max_position_size self"
  shows "apply_portfolio_constraints self k opp existing_positions bankroll
           \<le> max_position_size self"
proof -
  have cap: "min k (max_position_size self) \<le> max_position_size self" by simp
  have red: "min k (max_position_size self) * max 0.5 (1 - (t - max_correlation_exposure self))
               \<le> max_position_size self"
    if "max_correlation_exposure self < t" for t
    using assms cap reduction_factor_bounds [OF that]
    by (intro scaled_le_cap) simp_all
  show ?thesis
    using cap red
    by (simp add: apply_portfolio_constraints_def Let_def split: option.split list.split)
qed

lemma apply_portfolio_constraints_nonneg:
  assumes "0 \<le> max_position_size self" and "0 \<le> k"
  shows "0 \<le> apply_portfolio_constraints self k opp existing_positions bankroll"
  using assms
  by (simp add: apply_portfolio_constraints_def Let_def split: option.split list.split)

lemma apply_portfolio_constraints_zero:
  assumes "0 \<le> max_position_size self"
  shows "apply_portfolio_constraints self 0 opp existing_positions bankroll = 0"
  using assms
  by (simp add: apply_portfolio_constraints_def Let_def split: option.split list.split)

subsection \<open>Stress test against the cap\<close>

lemma stress_loop_zero: "stress_loop sc opp 0 = 0"
  by (induction sc) (simp_all add: Let_def calculate_base_kelly_nonneg)

lemma stress_test_position_zero: "stress_test_position 0 opp = 0"
  by (simp add: stress_test_position_def stress_loop_zero)

lemma stress_test_below_cap:
  assumes "0 \<le> m" and "k \<le> m"
  shows "stress_test_position k opp \<le> m"
proof -
  have "stress_loop stress_scenarios opp k \<le> m"
    using stress_loop_le [of stress_scenarios opp k] assms(2) by simp
  from scaled_le_cap [OF assms(1) this, of "0.8"] show ?thesis
    by (simp add: stress_test_position_def)
qed


subsection \<open>The pipeline\<close>

lemmas stage_defs =
  validate_opportunity_def calculate_base_kelly_def calculate_expected_value_def
  apply_confidence_adjustment_def get_confidence_multiplier_unfold
  apply_risk_adjustments_def liquidity_step_def spread_step_def time_step_def
  apply_kelly_mode_scaling_def apply_portfolio_constraints_def
  stress_test_position_def stress_scenarios_def stressed_opp_def
  generate_recommendation_def generate_reasoning_def invalid_result_def Let_def

lemmas input_defs =
  demo_opp_def default_optimizer_def exposed_positions_def position_size_of_def
  out_of_range_opp_def negative_spread_opp_def negative_horizon_opp_def
  low_confidence_opp_def negative_cap_optimizer_def

lemma final_position_size_unfold:
  "final_position_size (calculate_optimal_position self opp bankroll existing_positions) =
     (if \<not> validate_opportunity opp then 0
      else if stress_test self
        then stress_test_position (pre_stress self opp bankroll existing_positions) opp
      else pre_stress self opp bankroll existing_positions)"
  by (simp add: calculate_optimal_position_def invalid_result_def pre_stress_def Let_def
      case_prod_beta)

lemma adjusted_fraction_final:
  "adjusted_fraction (calculate_optimal_position self opp bankroll existing_positions)
     = final_position_size (calculate_optimal_position self opp bankroll existing_positions)"
  by (simp add: calculate_optimal_position_def invalid_result_def Let_def case_prod_beta)

lemma pre_stress_le:
  "0 \<le> max_position_size self
     \<Longrightarrow> pre_stress self opp bankroll existing_positions \<le> max_position_size self"
  unfolding pre_stress_def by (rule apply_portfolio_constraints_le)

lemma pre_stress_low_confidence:
  assumes "confidence_level opp < min_confidence_threshold self"
    and "0 \<le> max_position_size self"
  shows "pre_stress self opp bankroll existing_positions = 0"
  unfolding pre_stress_def
  by (simp add: apply_confidence_adjustment_low [OF assms(1)] apply_risk_adjustments_zero
      apply_kelly_mode_scaling_zero apply_portfolio_constraints_zero [OF assms(2)])

text \<open>
  C3. For a valid opportunity whose confidence is below \<open>min_confidence_threshold\<close>,
  and a non-negative \<open>max_position_size\<close>, the adjusted fraction and the final position
  size are 0, whatever the mode, the existing positions and the stress-test flag.
\<close>

theorem low_confidence_adjusted_fraction:
  assumes "validate_opportunity opp"
    and "confidence_level opp < min_confidence_threshold self"
    and "0 \<le> max_position_size self"
  shows "adjusted_fraction (calculate_optimal_position self opp bankroll existing_positions) = 0
         \<and> final_position_size
              (calculate_optimal_position self opp bankroll existing_positions) = 0"
  by (simp add: adjusted_fraction_final final_position_size_unfold
      pre_stress_low_confidence [OF assms(2,3)] stress_test_position_zero)

theorem low_confidence_adjusted_fraction_witness:
  "validate_opportunity low_confidence_opp
   \<and> confidence_level low_confidence_opp < min_confidence_threshold default_optimizer
   \<and> 0 \<le> max_position_size default_optimizer
   \<and> kelly_fraction
        (calculate_optimal_position default_optimizer low_confidence_opp 1000 None) = 37 / 65
   \<and> adjusted_fraction
        (calculate_optimal_position default_optimizer low_confidence_opp 1000 None) = 0"
proof -
  have valid: "validate_opportunity low_confidence_opp"
    by (simp add: validate_opportunity_def input_defs)
  have low: "confidence_level low_confidence_opp < min_confidence_threshold default_optimizer"
    by (simp add: input_defs)
  have cap: "0 \<le> max_position_size default_optimizer"
    by (simp add: default_optimizer_def)
  have base: "kelly_fraction
        (calculate_optimal_position default_optimizer low_confidence_opp 1000 None) = 37 / 65"
    by (simp add: calculate_optimal_position_def stage_defs input_defs)
  from low_confidence_adjusted_fraction [OF valid low cap, of 1000 None] valid low cap base
  show ?thesis by simp
qed

theorem low_confidence_adjusted_fraction_counterexample:
  "validate_opportunity low_confidence_opp
   \<and> confidence_level low_confidence_opp < min_confidence_threshold negative_cap_optimizer
   \<and> adjusted_fraction
        (calculate_optimal_position negative_cap_optimizer low_confidence_opp 1000 None)
       = - (2 / 25)
   \<and> adjusted_fraction
        (calculate_optimal_position negative_cap_optimizer low_confidence_opp 1000 None) \<noteq> 0"
  by (simp add: calculate_optimal_position_def stage_defs input_defs)

lemma validate_opportunity_iff:
  "validate_opportunity opp \<longleftrightarrow>
     (0 < probability_estimate opp \<and> probability_estimate opp < 1)
     \<and> (0 < market_price opp \<and> market_price opp < 1)
     \<and> (0 \<le> confidence_level opp \<and> confidence_level opp \<le> 1)
     \<and> \<not> liquidity opp < 0"
  unfolding validate_opportunity_def by (simp only: if_bool_eq_conj) blast

lemma valid_reasoning_head:
  assumes "validate_opportunity opp"
  shows "hd (reasoning (calculate_optimal_position self opp bankroll existing_positions))
           = Base_Kelly (calculate_base_kelly opp)"
  using assms
  by (simp add: calculate_optimal_position_def generate_reasoning_def Let_def case_prod_beta)

text \<open>
  C2. The all-zero HOLD result with the reasoning "Invalid opportunity parameters" is
  returned exactly when the probability estimate or the market price is not strictly
  inside (0,1), the confidence is outside [0,1] or the liquidity is negative. The spread
  and the time to resolution are not validated.
\<close>

theorem invalid_opportunity_result:
  "calculate_optimal_position self opp bankroll existing_positions =
       \<lparr>kelly_fraction = 0, adjusted_fraction = 0, expected_value = 0,
        confidence_adjustment = 0, risk_adjustment = 0, final_position_size = 0,
        recommendation = ''HOLD'',
        reasoning = [Literal ''Invalid opportunity parameters'']\<rparr>
   \<longleftrightarrow>
     \<not> (0 < probability_estimate opp \<and> probability_estimate opp < 1)
     \<or> \<not> (0 < market_price opp \<and> market_price opp < 1)
     \<or> \<not> (0 \<le> confidence_level opp \<and> confidence_level opp \<le> 1)
     \<or> liquidity opp < 0"
proof (cases "validate_opportunity opp")
  case False
  then have "calculate_optimal_position self opp bankroll existing_positions = invalid_result"
    by (simp add: calculate_optimal_position_def)
  with False show ?thesis
    by (auto simp: invalid_result_def validate_opportunity_iff)
next
  case True
  have "calculate_optimal_position self opp bankroll existing_positions \<noteq> invalid_result"
  proof
    assume "calculate_optimal_position self opp bankroll existing_positions = invalid_result"
    then have "hd (reasoning (calculate_optimal_position self opp bankroll existing_positions))
                 = Literal ''Invalid opportunity parameters''"
      by (simp add: invalid_result_def)
    with valid_reasoning_head [OF True, of self bankroll existing_positions]
    show False by simp
  qed
  with True show ?thesis
    by (auto simp: invalid_result_def validate_opportunity_iff)
qed

theorem invalid_opportunity_result_witness:
  "\<not> (0 < probability_estimate out_of_range_opp \<and> probability_estimate out_of_range_opp < 1)
   \<and> calculate_optimal_position default_optimizer out_of_range_opp 1000 None =
       \<lparr>kelly_fraction = 0, adjusted_fraction = 0, expected_value = 0,
        confidence_adjustment = 0, risk_adjustment = 0, final_position_size = 0,
        recommendation = ''HOLD'',
        reasoning = [Literal ''Invalid opportunity parameters'']\<rparr>"
proof -
  have bad: "\<not> (0 < probability_estimate out_of_range_opp
                \<and> probability_estimate out_of_range_opp < 1)"
    by (simp add: input_defs)
  with invalid_opportunity_result [of default_optimizer out_of_range_opp 1000 None]
  show ?thesis by blast
qed

theorem invalid_opportunity_result_counterexample:
  "bid_ask_spread negative_spread_opp < 0
   \<and> calculate_optimal_position default_optimizer negative_spread_opp 1000 None =
       \<lparr>kelly_fraction = 37 / 65, adjusted_fraction = 34 / 325, expected_value = 37 / 35,
        confidence_adjustment = 1 / 8, risk_adjustment = 0, final_position_size = 34 / 325,
        recommendation = ''BUY_YES'',
        reasoning = [Base_Kelly (37 / 65), Confidence_adjustment (1 / 8), Kelly_mode ''half'',
                     Final_position (34 / 325)]\<rparr>
   \<and> time_to_resolution negative_horizon_opp < 0
   \<and> calculate_optimal_position default_optimizer negative_horizon_opp 1000 None =
       \<lparr>kelly_fraction = 37 / 65, adjusted_fraction = 34 / 325, expected_value = 37 / 35,
        confidence_adjustment = 1 / 8, risk_adjustment = 0, final_position_size = 34 / 325,
        recommendation = ''BUY_YES'',
        reasoning = [Base_Kelly (37 / 65), Confidence_adjustment (1 / 8), Kelly_mode ''half'',
                     Final_position (34 / 325)]\<rparr>"
  by (simp add: calculate_optimal_position_def stage_defs input_defs)

text \<open>
  The published position size with the stress test enabled never exceeds the one with
  the stress test disabled, for a non-negative cap.
\<close>

lemma pre_stress_stress_test_flag:
  "pre_stress (self\<lparr>stress_test := b\<rparr>) opp bankroll existing_positions
     = pre_stress self opp bankroll existing_positions"
proof -
  have "apply_confidence_adjustment (self\<lparr>stress_test := b\<rparr>) k c
          = apply_confidence_adjustment self k c" for k c
    by (simp add: apply_confidence_adjustment_def)
  moreover have "apply_kelly_mode_scaling (self\<lparr>stress_test := b\<rparr>) k
          = apply_kelly_mode_scaling self k" for k
    by (simp add: apply_kelly_mode_scaling_def)
  moreover have "apply_portfolio_constraints (self\<lparr>stress_test := b\<rparr>) k opp
                   existing_positions bankroll
          = apply_portfolio_constraints self k opp existing_positions bankroll" for k
    by (simp add: apply_portfolio_constraints_def Let_def split: option.split list.split)
  ultimately show ?thesis
    by (simp add: pre_stress_def)
qed

lemma pre_stress_nonneg:
  assumes "0 \<le> max_position_size self"
  shows "0 \<le> pre_stress self opp bankroll existing_positions"
  unfolding pre_stress_def
  by (intro apply_portfolio_constraints_nonneg assms apply_kelly_mode_scaling_nonneg
      apply_risk_adjustments_nonneg apply_confidence_adjustment_nonneg
      calculate_base_kelly_nonneg)

lemma stress_tested_result_le:
  assumes "0 \<le> max_position_size self"
  shows "final_position_size
           (calculate_optimal_position (self\<lparr>stress_test := True\<rparr>) opp bankroll
              existing_positions)
         \<le> final_position_size
             (calculate_optimal_position (self\<lparr>stress_test := False\<rparr>) opp bankroll
                existing_positions)"
proof -
  have "0 \<le> pre_stress self opp bankroll existing_positions"
    using assms by (rule pre_stress_nonneg)
  then have "stress_test_position (pre_stress self opp bankroll existing_positions) opp
               \<le> pre_stress self opp bankroll existing_positions"
    using stress_loop_le [of stress_scenarios opp
        "pre_stress self opp bankroll existing_positions"]
      stress_loop_nonneg [of "pre_stress self opp bankroll existing_positions"
        stress_scenarios opp]
    by (simp add: stress_test_position_def)
  then show ?thesis
    by (simp add: final_position_size_unfold pre_stress_stress_test_flag)
qed

subsection \<open>The result dictionary\<close>

lemma set_update_subset: "set (AList.update k v al) \<subseteq> insert (k, v) (set al)"
  by (induction al) auto

lemma update_fresh: "k \<notin> fst ` set al \<Longrightarrow> AList.update k v al = al @ [(k, v)]"
  by (induction al) auto

lemma store_result_eq:
  "store_result ks results (i, opp)
     = AList.update (market_id opp) (multi_market_result opp (ks ! i)) results"
  by (simp add: store_result_def)

lemma create_results_foldl:
  "create_results opps ks = foldl (store_result ks) [] (enumerate 0 opps)"
  by (simp add: create_results_def)

lemma foldl_store_result_entries:
  assumes "(mid, r) \<in> set (foldl (store_result ks) acc (enumerate n opps))"
  shows "(mid, r) \<in> set acc
         \<or> (\<exists>j<length opps. mid = market_id (opps ! j)
                              \<and> r = multi_market_result (opps ! j) (ks ! (n + j)))"
  using assms
proof (induction opps arbitrary: acc n)
  case Nil
  then show ?case by simp
next
  case (Cons x xs)
  from Cons.prems
  have "(mid, r) \<in> set (foldl (store_result ks) (store_result ks acc (n, x))
                           (enumerate (Suc n) xs))"
    by simp
  from Cons.IH [OF this]
  consider "(mid, r) \<in> set (store_result ks acc (n, x))"
    | j where "j < length xs" "mid = market_id (xs ! j)"
        "r = multi_market_result (xs ! j) (ks ! (Suc n + j))"
    by blast
  then show ?case
  proof cases
    case 1
    then have "(mid, r) = (market_id x, multi_market_result x (ks ! n)) \<or> (mid, r) \<in> set acc"
      using set_update_subset [of "market_id x" "multi_market_result x (ks ! n)" acc]
      by (auto simp: store_result_eq)
    then show ?thesis
    proof
      assume "(mid, r) = (market_id x, multi_market_result x (ks ! n))"
      then have "0 < length (x # xs) \<and> mid = market_id ((x # xs) ! 0)
                 \<and> r = multi_market_result ((x # xs) ! 0) (ks ! (n + 0))"
        by simp
      then show ?thesis by blast
    next
      assume "(mid, r) \<in> set acc"
      then show ?thesis by simp
    qed
  next
    case 2
    then have "Suc j < length (x # xs) \<and> mid = market_id ((x # xs) ! Suc j)
               \<and> r = multi_market_result ((x # xs) ! Suc j) (ks ! (n + Suc j))"
      by simp
    then show ?thesis by blast
  qed
qed

lemma create_results_entries:
  assumes "(mid, r) \<in> set (create_results opps ks)"
  shows "\<exists>j<length opps. mid = market_id (opps ! j)
                           \<and> r = multi_market_result (opps ! j) (ks ! j)"
  using foldl_store_result_entries [of mid r ks "[]" 0 opps] assms
  by (simp add: create_results_foldl)

lemma foldl_store_result_distinct:
  assumes "distinct (map market_id opps)"
    and "market_id ` set opps \<inter> fst ` set acc = {}"
  shows "foldl (store_result ks) acc (enumerate n opps)
           = acc @ map (\<lambda>e. (market_id (snd e), multi_market_result (snd e) (ks ! fst e)))
                     (enumerate n opps)"
  using assms
proof (induction opps arbitrary: acc n)
  case Nil
  then show ?case by simp
next
  case (Cons x xs)
  let ?entry = "(market_id x, multi_market_result x (ks ! n))"
  have fresh: "market_id x \<notin> fst ` set acc"
    using Cons.prems(2) by auto
  then have step: "store_result ks acc (n, x) = acc @ [?entry]"
    by (simp add: store_result_eq update_fresh)
  have "distinct (map market_id xs)"
    using Cons.prems(1) by simp
  moreover have "market_id ` set xs \<inter> fst ` set (acc @ [?entry]) = {}"
    using Cons.prems by auto
  ultimately have "foldl (store_result ks) (acc @ [?entry]) (enumerate (Suc n) xs)
      = (acc @ [?entry])
        @ map (\<lambda>e. (market_id (snd e), multi_market_result (snd e) (ks ! fst e)))
            (enumerate (Suc n) xs)"
    by (rule Cons.IH)
  then show ?case
    by (simp add: step)
qed

lemma create_results_distinct:
  assumes "distinct (map market_id opps)"
  shows "create_results opps ks
           = map (\<lambda>e. (market_id (snd e), multi_market_result (snd e) (ks ! fst e)))
               (enumerate 0 opps)"
  using foldl_store_result_distinct [OF assms, of "[]" ks 0]
  by (simp add: create_results_foldl)

lemma create_results_keys:
  assumes "distinct (map market_id opps)"
  shows "map fst (create_results opps ks) = map market_id opps"
proof -
  have "map fst (create_results opps ks) = map (market_id \<circ> snd) (enumerate 0 opps)"
    by (simp add: create_results_distinct [OF assms] comp_def)
  also have "\<dots> = map market_id (map snd (enumerate 0 opps))"
    by (simp only: map_map)
  finally show ?thesis by simp
qed

lemma create_results_sizes:
  assumes "distinct (map market_id opps)" and "length ks = length opps"
  shows "map (final_position_size \<circ> snd) (create_results opps ks) = ks"
proof (rule nth_equalityI)
  show "length (map (final_position_size \<circ> snd) (create_results opps ks)) = length ks"
    by (simp add: create_results_distinct [OF assms(1)] assms(2))
next
  fix i
  assume "i < length (map (final_position_size \<circ> snd) (create_results opps ks))"
  then have i: "i < length opps"
    by (simp add: create_results_distinct [OF assms(1)])
  then show "map (final_position_size \<circ> snd) (create_results opps ks) ! i = ks ! i"
    by (simp add: create_results_distinct [OF assms(1)] nth_enumerate_eq
        multi_market_result_def)
qed


subsection \<open>Scaling to the budget\<close>

lemma scale_to_budget_length:
  "scale_to_budget self ks = Inr scaled \<Longrightarrow> length scaled = length ks"
  by (auto simp: scale_to_budget_def Let_def split: if_splits)

lemma scale_to_budget_over:
  assumes "max_correlation_exposure self < sum_list ks" and "sum_list ks \<noteq> 0"
  shows "scale_to_budget self ks
           = Inr (map (\<lambda>k. k * (max_correlation_exposure self / sum_list ks)) ks)"
  using assms by (simp add: scale_to_budget_def Let_def)

lemma scale_to_budget_within:
  assumes "sum_list ks \<le> max_correlation_exposure self"
  shows "scale_to_budget self ks = Inr ks"
  using assms by (simp add: scale_to_budget_def Let_def)

lemma scaled_sum:
  fixes ks :: "real list"
  assumes "sum_list ks \<noteq> 0"
  shows "sum_list (map (\<lambda>k. k * (budget / sum_list ks)) ks) = budget"
proof -
  have "sum_list (map (\<lambda>k. k * (budget / sum_list ks)) ks)
          = sum_list (map (\<lambda>k. k) ks) * (budget / sum_list ks)"
    by (rule sum_list_mult_const)
  then have "sum_list (map (\<lambda>k. k * (budget / sum_list ks)) ks)
          = sum_list ks * (budget / sum_list ks)"
    by simp
  also have "\<dots> = budget"
    using assms by simp
  finally show ?thesis .
qed

lemma individual_kellys_length:
  "length (individual_kellys self opps bankroll) = length opps"
  by (simp add: individual_kellys_def)

lemma individual_kellys_three_markets:
  "individual_kellys default_optimizer three_markets 1000 = [34 / 325, 34 / 325, 34 / 325]"
  by (simp add: individual_kellys_def three_markets_def calculate_optimal_position_def
      stage_defs input_defs)

lemma individual_kellys_same_id_markets:
  "individual_kellys default_optimizer same_id_markets 1000 = [34 / 325, 34 / 325, 34 / 325]"
  by (simp add: individual_kellys_def same_id_markets_def calculate_optimal_position_def
      stage_defs input_defs)

lemma scale_to_budget_demo:
  "scale_to_budget default_optimizer [34 / 325, 34 / 325, 34 / 325] = Inr [1 / 10, 1 / 10, 1 / 10]"
  by (simp add: scale_to_budget_def default_optimizer_def Let_def)

lemma three_markets_result:
  "calculate_multi_market_kelly default_optimizer three_markets (Some no_correlation) 1000 =
     Inr [(''a'', multi_market_result (demo_opp\<lparr>market_id := ''a''\<rparr>) (1 / 10)),
          (''b'', multi_market_result (demo_opp\<lparr>market_id := ''b''\<rparr>) (1 / 10)),
          (''c'', multi_market_result (demo_opp\<lparr>market_id := ''c''\<rparr>) (1 / 10))]"
  unfolding calculate_multi_market_kelly_def individual_kellys_three_markets
    scale_to_budget_demo
  by (simp add: create_results_def store_result_def three_markets_def demo_opp_def Let_def)

lemma same_id_markets_result:
  "calculate_multi_market_kelly default_optimizer same_id_markets (Some no_correlation) 1000 =
     Inr [(''btc_100k_2024'', multi_market_result demo_opp (1 / 10))]"
  unfolding calculate_multi_market_kelly_def individual_kellys_same_id_markets
    scale_to_budget_demo
  by (simp add: create_results_def store_result_def same_id_markets_def demo_opp_def Let_def)

lemma multi_market_result_demo:
  "multi_market_result (demo_opp\<lparr>market_id := m\<rparr>) (1 / 10) =
     \<lparr>kelly_fraction = 1 / 10, adjusted_fraction = 1 / 10, expected_value = 37 / 35,
      confidence_adjustment = 0, risk_adjustment = 0, final_position_size = 1 / 10,
      recommendation = ''BUY_YES'',
      reasoning = [Literal ''Multi-market Kelly with correlation adjustment'']\<rparr>"
  by (simp add: multi_market_result_def calculate_expected_value_def
      generate_recommendation_def demo_opp_def)


text \<open>
  C10. On the correlated path every returned result has confidence and risk adjustment 0,
  and its Kelly fraction, adjusted fraction and final position size all equal the
  budget-scaled fraction of an opportunity with that market id.
\<close>

theorem multi_market_result_fields:
  assumes "calculate_multi_market_kelly self opps (Some corr) bankroll = Inr res"
    and "(mid, r) \<in> set res"
  shows "confidence_adjustment r = 0 \<and> risk_adjustment r = 0
         \<and> (\<exists>scaled. scale_to_budget self (individual_kellys self opps bankroll) = Inr scaled
              \<and> (\<exists>i<length opps. mid = market_id (opps ! i)
                     \<and> kelly_fraction r = scaled ! i
                     \<and> adjusted_fraction r = scaled ! i
                     \<and> final_position_size r = scaled ! i))"
proof -
  from assms(1) obtain scaled where
    scaled: "scale_to_budget self (individual_kellys self opps bankroll) = Inr scaled"
    and res: "res = create_results opps scaled"
    by (auto simp: calculate_multi_market_kelly_def split: sum.splits)
  from assms(2) res obtain i where
    i: "i < length opps" "mid = market_id (opps ! i)"
       "r = multi_market_result (opps ! i) (scaled ! i)"
    using create_results_entries by blast
  have "confidence_adjustment r = 0" "risk_adjustment r = 0"
       "kelly_fraction r = scaled ! i" "adjusted_fraction r = scaled ! i"
       "final_position_size r = scaled ! i"
    by (simp_all add: i(3) multi_market_result_def)
  with scaled i(1,2) show ?thesis by blast
qed

theorem multi_market_result_fields_witness:
  "calculate_multi_market_kelly default_optimizer three_markets (Some no_correlation) 1000 =
     Inr [(''a'', multi_market_result (demo_opp\<lparr>market_id := ''a''\<rparr>) (1 / 10)),
          (''b'', multi_market_result (demo_opp\<lparr>market_id := ''b''\<rparr>) (1 / 10)),
          (''c'', multi_market_result (demo_opp\<lparr>market_id := ''c''\<rparr>) (1 / 10))]
   \<and> confidence_adjustment (multi_market_result (demo_opp\<lparr>market_id := ''a''\<rparr>) (1 / 10)) = 0
   \<and> risk_adjustment (multi_market_result (demo_opp\<lparr>market_id := ''a''\<rparr>) (1 / 10)) = 0
   \<and> kelly_fraction (multi_market_result (demo_opp\<lparr>market_id := ''a''\<rparr>) (1 / 10)) = 1 / 10
   \<and> kelly_fraction
        (calculate_optimal_position default_optimizer (demo_opp\<lparr>market_id := ''a''\<rparr>) 1000 None)
       = 37 / 65
   \<and> confidence_adjustment
        (calculate_optimal_position default_optimizer (demo_opp\<lparr>market_id := ''a''\<rparr>) 1000 None)
       = 1 / 8"
proof -
  let ?r = "multi_market_result (demo_opp\<lparr>market_id := ''a''\<rparr>) (1 / 10)"
  have member: "(''a'', ?r) \<in> set
       [(''a'', multi_market_result (demo_opp\<lparr>market_id := ''a''\<rparr>) (1 / 10)),
        (''b'', multi_market_result (demo_opp\<lparr>market_id := ''b''\<rparr>) (1 / 10)),
        (''c'', multi_market_result (demo_opp\<lparr>market_id := ''c''\<rparr>) (1 / 10))]"
    by simp
  from multi_market_result_fields [OF three_markets_result member]
  have zero: "confidence_adjustment ?r = 0" "risk_adjustment ?r = 0"
    by blast+
  have size: "kelly_fraction ?r = 1 / 10"
    by (simp add: multi_market_result_def)
  have base: "kelly_fraction
        (calculate_optimal_position default_optimizer (demo_opp\<lparr>market_id := ''a''\<rparr>) 1000 None)
       = 37 / 65"
    by (simp add: calculate_optimal_position_def stage_defs input_defs)
  have penalty: "confidence_adjustment
        (calculate_optimal_position default_optimizer (demo_opp\<lparr>market_id := ''a''\<rparr>) 1000 None)
       = 1 / 8"
    by (simp add: calculate_optimal_position_def stage_defs input_defs)
  from three_markets_result zero size base penalty show ?thesis
    by blast
qed

section \<open>Properties over doubles\<close>

lemma round_half_even_of_int: "round_half_even (of_int n) = n"
  by (simp add: round_half_even_def)

lemma round_half_even_bounds:
  "of_int (round_half_even r) \<le> r + 1 / 2" "r - 1 / 2 \<le> of_int (round_half_even r)"
  unfolding round_half_even_def Let_def by (auto; linarith)+

lemma round_half_even_mono:
  assumes "x \<le> y"
  shows "round_half_even x \<le> round_half_even y"
proof (cases "\<lfloor>x\<rfloor> = \<lfloor>y\<rfloor>")
  case True
  with assms show ?thesis
    unfolding round_half_even_def Let_def by auto
next
  case False
  with assms have "\<lfloor>x\<rfloor> < \<lfloor>y\<rfloor>"
    by (simp add: floor_mono order.strict_iff_order)
  then have "\<lfloor>x\<rfloor> + 1 \<le> \<lfloor>y\<rfloor>" by simp
  moreover have "round_half_even x \<le> \<lfloor>x\<rfloor> + 1"
    unfolding round_half_even_def Let_def by auto
  moreover have "\<lfloor>y\<rfloor> \<le> round_half_even y"
    unfolding round_half_even_def Let_def by auto
  ultimately show ?thesis by linarith
qed

lemma round_half_even_minus: "round_half_even (- r) = - round_half_even r"
proof (cases "r = of_int \<lfloor>r\<rfloor>")
  case True
  then obtain n where "r = of_int n" ..
  then show ?thesis
    using round_half_even_of_int [of n] round_half_even_of_int [of "- n"] by simp
next
  case False
  then have fl: "\<lfloor>- r\<rfloor> = - \<lfloor>r\<rfloor> - 1"
    by (simp add: floor_minus ceiling_altdef)
  have ev: "even (- \<lfloor>r\<rfloor> - 1) \<longleftrightarrow> odd \<lfloor>r\<rfloor>" by simp
  show ?thesis
    unfolding round_half_even_def Let_def fl ev
    by (auto simp: algebra_simps)
qed

lemma round_half_even_nearest:
  assumes "\<bar>r - of_int n\<bar> < 1 / 2"
  shows "round_half_even r = n"
proof -
  have "of_int (round_half_even r) - of_int n < (1::real)"
       "of_int n - of_int (round_half_even r) < (1::real)"
    using round_half_even_bounds [of r] assms by linarith+
  then have "round_half_even r - n < 1" "n - round_half_even r < 1"
    by linarith+
  then show ?thesis by linarith
qed

lemma powr_powi: "(2::real) powr real_of_int k = 2 powi k"
  by (simp add: powr_real_of_int power_int_def field_simps)

lemma binade_bounds:
  assumes "x \<noteq> 0"
  shows "2 powi binade x \<le> \<bar>x\<bar>" and "\<bar>x\<bar> < 2 powi (binade x + 1)"
proof -
  have "0 < \<bar>x\<bar>" using assms by simp
  then have "2 powr real_of_int (binade x) \<le> \<bar>x\<bar>
             \<and> \<bar>x\<bar> < 2 powr real_of_int (binade x + 1)"
    using floor_log_eq_powr_iff [of "\<bar>x\<bar>" 2 "binade x"]
    by (simp add: binade_def)
  then show "2 powi binade x \<le> \<bar>x\<bar>" and "\<bar>x\<bar> < 2 powi (binade x + 1)"
    by (simp_all only: powr_powi)
qed

lemma binade_eqI:
  assumes "2 powi k \<le> \<bar>x\<bar>" and "\<bar>x\<bar> < 2 powi (k + 1)"
  shows "binade x = k"
proof -
  have "0 < (2::real) powi k" by simp
  with assms(1) have "0 < \<bar>x\<bar>" by linarith
  moreover have "2 powr real_of_int k \<le> \<bar>x\<bar> \<and> \<bar>x\<bar> < 2 powr real_of_int (k + 1)"
    using assms by (simp only: powr_powi)
  ultimately show ?thesis
    using floor_log_eq_powr_iff [of "\<bar>x\<bar>" 2 k]
    by (simp add: binade_def)
qed


lemma binade_mono:
  assumes "x \<noteq> 0" and "\<bar>x\<bar> \<le> \<bar>y\<bar>"
  shows "binade x \<le> binade y"
proof (rule ccontr)
  assume "\<not> binade x \<le> binade y"
  then have "binade y + 1 \<le> binade x" by simp
  then have "(2::real) powi (binade y + 1) \<le> 2 powi binade x"
    by (intro power_int_increasing) simp_all
  moreover have "y \<noteq> 0" using assms by auto
  ultimately show False
    using binade_bounds(1) [OF assms(1)] binade_bounds(2) [of y] assms(2) by linarith
qed

lemma binade_minus: "binade (- x) = binade x"
  by (simp add: binade_def)

lemma ulp_exponent_minus: "ulp_exponent (- x) = ulp_exponent x"
  by (simp add: ulp_exponent_def binade_minus)

lemma round_fin_minus: "round_fin (- x) = - round_fin x"
  by (simp add: round_fin_def ulp_exponent_minus round_half_even_minus)



lemma round_fin_pos:
  assumes "0 < x"
  shows "round_fin x = of_int (round_half_even (x / 2 powi ulp_exponent x)) * 2 powi ulp_exponent x"
  using assms by (simp add: round_fin_def)

lemma round_half_even_ge_power:
  assumes "2 powi n \<le> r" and "0 \<le> n"
  shows "2 powi n \<le> real_of_int (round_half_even r)"
proof -
  have eq: "(2::real) powi n = of_int (2 ^ nat n)"
    using assms(2) by (simp add: power_int_def)
  then have "round_half_even (of_int (2 ^ nat n)) \<le> round_half_even r"
    using assms(1) by (intro round_half_even_mono) simp
  then show ?thesis
    by (simp only: eq round_half_even_of_int of_int_le_iff)
qed

lemma round_half_even_le_power:
  assumes "r \<le> 2 powi n" and "0 \<le> n"
  shows "real_of_int (round_half_even r) \<le> 2 powi n"
proof -
  have eq: "(2::real) powi n = of_int (2 ^ nat n)"
    using assms(2) by (simp add: power_int_def)
  then have "round_half_even r \<le> round_half_even (of_int (2 ^ nat n))"
    using assms(1) by (intro round_half_even_mono) simp
  then show ?thesis
    by (simp only: eq round_half_even_of_int of_int_le_iff)
qed

lemma round_fin_pos_lower:
  assumes "0 < x" and "- 1074 \<le> binade x"
  shows "2 powi binade x \<le> round_fin x"
proof -
  define u where "u = ulp_exponent x"
  have u: "u \<le> binade x"
    using assms(2) by (simp add: u_def ulp_exponent_def)
  have "2 powi binade x \<le> x"
    using binade_bounds(1) [of x] assms(1) by simp
  then have "2 powi (binade x - u) * 2 powi u \<le> x"
    by (simp flip: power_int_add)
  then have "2 powi (binade x - u) \<le> x / 2 powi u"
    by (simp add: pos_le_divide_eq)
  then have "2 powi (binade x - u) \<le> real_of_int (round_half_even (x / 2 powi u))"
    using u by (intro round_half_even_ge_power) simp_all
  then have "2 powi (binade x - u) * 2 powi u
               \<le> real_of_int (round_half_even (x / 2 powi u)) * 2 powi u"
    by (intro mult_right_mono) simp_all
  then show ?thesis
    by (simp add: round_fin_pos [OF assms(1)] u_def flip: power_int_add)
qed

lemma round_fin_pos_upper:
  assumes "0 < x" and "binade x < k" and "- 1074 \<le> k"
  shows "round_fin x \<le> 2 powi k"
proof -
  define u where "u = ulp_exponent x"
  have u: "u \<le> k"
    using assms(2,3) by (simp add: u_def ulp_exponent_def)
  have "x < 2 powi (binade x + 1)"
    using binade_bounds(2) [of x] assms(1) by simp
  also have "\<dots> \<le> 2 powi k"
    using assms(2) by (intro power_int_increasing) simp_all
  finally have "x \<le> 2 powi (k - u) * 2 powi u"
    by (simp flip: power_int_add)
  then have "x / 2 powi u \<le> 2 powi (k - u)"
    by (simp add: pos_divide_le_eq)
  then have "real_of_int (round_half_even (x / 2 powi u)) \<le> 2 powi (k - u)"
    using u by (intro round_half_even_le_power) simp_all
  then have "real_of_int (round_half_even (x / 2 powi u)) * 2 powi u
               \<le> 2 powi (k - u) * 2 powi u"
    by (intro mult_right_mono) simp_all
  then show ?thesis
    by (simp add: round_fin_pos [OF assms(1)] u_def flip: power_int_add)
qed

lemma round_fin_nonneg:
  assumes "0 \<le> x"
  shows "0 \<le> round_fin x"
proof (cases "x = 0")
  case True
  then show ?thesis by (simp add: round_fin_def)
next
  case False
  with assms have x: "0 < x" by simp
  have "round_half_even (of_int 0) \<le> round_half_even (x / 2 powi ulp_exponent x)"
    using x by (intro round_half_even_mono) simp
  then have "0 \<le> round_half_even (x / 2 powi ulp_exponent x)"
    by (simp only: round_half_even_of_int)
  then show ?thesis
    by (simp add: round_fin_pos [OF x])
qed

lemma ulp_exponent_mono:
  assumes "x \<noteq> 0" and "\<bar>x\<bar> \<le> \<bar>y\<bar>"
  shows "ulp_exponent x \<le> ulp_exponent y"
  using binade_mono [OF assms] by (simp add: ulp_exponent_def)

lemma round_fin_mono_pos:
  assumes "0 < x" and "x \<le> y"
  shows "round_fin x \<le> round_fin y"
proof -
  have y: "0 < y" using assms by simp
  have le: "ulp_exponent x \<le> ulp_exponent y"
    using assms by (intro ulp_exponent_mono) simp_all
  show ?thesis
  proof (cases "ulp_exponent x = ulp_exponent y")
    case True
    have "x / 2 powi ulp_exponent y \<le> y / 2 powi ulp_exponent y"
      using assms(2) by (simp add: divide_right_mono)
    then have "round_half_even (x / 2 powi ulp_exponent y)
                 \<le> round_half_even (y / 2 powi ulp_exponent y)"
      by (rule round_half_even_mono)
    then have "real_of_int (round_half_even (x / 2 powi ulp_exponent y)) * 2 powi ulp_exponent y
                 \<le> real_of_int (round_half_even (y / 2 powi ulp_exponent y))
                     * 2 powi ulp_exponent y"
      by (intro mult_right_mono) simp_all
    then show ?thesis
      by (simp add: round_fin_pos [OF assms(1)] round_fin_pos [OF y] True)
  next
    case False
    with le have lt: "ulp_exponent x < ulp_exponent y" by simp
    then have ky: "- 1074 \<le> binade y" and kxy: "binade x < binade y"
      by (auto simp: ulp_exponent_def max_def split: if_splits)
    have "round_fin x \<le> 2 powi binade y"
      using assms(1) kxy ky by (rule round_fin_pos_upper)
    also have "\<dots> \<le> round_fin y"
      using y ky by (rule round_fin_pos_lower)
    finally show ?thesis .
  qed
qed

lemma round_fin_mono:
  assumes "x \<le> y"
  shows "round_fin x \<le> round_fin y"
proof -
  consider "0 < x" | "x \<le> 0" "0 \<le> y" | "y < 0" by linarith
  then show ?thesis
  proof cases
    case 1
    then show ?thesis using assms by (rule round_fin_mono_pos)
  next
    case 2
    have "round_fin x \<le> 0"
      using round_fin_nonneg [of "- x"] 2(1) by (simp add: round_fin_minus)
    also have "0 \<le> round_fin y"
      using 2(2) by (rule round_fin_nonneg)
    finally show ?thesis .
  next
    case 3
    then have "round_fin (- y) \<le> round_fin (- x)"
      using assms by (intro round_fin_mono_pos) simp_all
    then show ?thesis by (simp add: round_fin_minus)
  qed
qed

lemma round_fin_zero: "round_fin 0 = 0"
  by (simp add: round_fin_def)

lemma largest_double_pos: "0 < largest_double"
  by (simp add: largest_double_def)

lemma rnd_zero: "rnd 0 = Fin 0"
  using largest_double_pos by (simp add: rnd_def round_fin_zero)

lemma rnd_not_nan: "rnd x \<noteq> NaN"
  by (simp add: rnd_def Let_def)

lemma rnd_mono:
  assumes "x \<le> y"
  shows "fle (rnd x) (rnd y)"
  using round_fin_mono [OF assms] largest_double_pos
  by (auto simp: rnd_def Let_def)



lemma rnd_PInf_pos: "rnd x = PInf \<Longrightarrow> 0 < x"
proof (rule ccontr)
  assume inf: "rnd x = PInf" and "\<not> 0 < x"
  then have "round_fin x \<le> round_fin 0" by (intro round_fin_mono) simp
  then have "round_fin x \<le> 0" by (simp add: round_fin_zero)
  with inf largest_double_pos show False
    by (simp add: rnd_def Let_def split: if_splits)
qed

lemma rnd_NInf_neg: "rnd x = NInf \<Longrightarrow> x < 0"
proof (rule ccontr)
  assume inf: "rnd x = NInf" and "\<not> x < 0"
  then have "0 \<le> round_fin x" by (intro round_fin_nonneg) simp
  with inf largest_double_pos show False
    by (simp add: rnd_def Let_def split: if_splits)
qed


lemma rnd_cases:
  obtains y where "rnd x = Fin y" | "rnd x = PInf" "0 < x" | "rnd x = NInf" "x < 0"
  using rnd_PInf_pos [of x] rnd_NInf_neg [of x] rnd_not_nan [of x]
  by (cases "rnd x") auto



lemma rnd_le_zero: "x \<le> 0 \<Longrightarrow> rnd x = NInf \<or> (\<exists>y. rnd x = Fin y \<and> y \<le> 0)"
  using rnd_mono [of x 0] by (cases "rnd x") (auto simp: rnd_zero)

lemma pymax_zero: "is_nan (pymax k (Fin 0)) \<or> fle (Fin 0) (pymax k (Fin 0))"
  by (cases k) (auto simp: pymax_def)






















end
